theory Spec2Isabelle
  imports Complex_Main
begin

section \<open>Python values used by the extractor\<close>

text \<open>
  The extractor (\<^verbatim>\<open>src/paas_extractor/extractor.py\<close>) works on Python strings, floats and
  dictionaries.  Strings are modelled as \<^typ>\<open>string\<close> over ASCII text, Python floats as
  exact rationals (\<^typ>\<open>rat\<close>; rounding, infinities and NaN are outside the model), a
  raised exception as the left injection of a sum type.
\<close>

datatype py_error = ValueError | ZeroDivisionError | AttributeError | TypeError

subsection \<open>String primitives\<close>

text \<open>\<^verbatim>\<open>str.lower()\<close> on ASCII letters.\<close>

definition lower_char :: "char \<Rightarrow> char" where
  "lower_char c =
     (case map_of (zip ''ABCDEFGHIJKLMNOPQRSTUVWXYZ'' ''abcdefghijklmnopqrstuvwxyz'') c of
        None \<Rightarrow> c | Some d \<Rightarrow> d)"

definition lower :: "string \<Rightarrow> string" where
  "lower s = map lower_char s"

text \<open>The ASCII characters for which \<^verbatim>\<open>str.isspace()\<close> holds (also the class \<^verbatim>\<open>\s\<close>).\<close>

definition is_space :: "char \<Rightarrow> bool" where
  "is_space c = (c \<in> set [CHR '' '', CHR 0x09, CHR 0x0A, CHR 0x0B, CHR 0x0C, CHR 0x0D,
                             CHR 0x1C, CHR 0x1D, CHR 0x1E, CHR 0x1F])"

definition is_digit :: "char \<Rightarrow> bool" where
  "is_digit c = (c \<in> set ''0123456789'')"

text \<open>\<^verbatim>\<open>str.strip()\<close>: leading and trailing whitespace removed.\<close>

definition strip :: "string \<Rightarrow> string" where
  "strip s = rev (dropWhile is_space (rev (dropWhile is_space s)))"

text \<open>\<^verbatim>\<open>s.startswith(p)\<close> and the substring test \<^verbatim>\<open>sub in s\<close>.\<close>

fun starts_with :: "string \<Rightarrow> string \<Rightarrow> bool" where
  "starts_with s [] = True"
| "starts_with [] (p # ps) = False"
| "starts_with (c # cs) (p # ps) = (c = p \<and> starts_with cs ps)"

fun str_in :: "string \<Rightarrow> string \<Rightarrow> bool" where
  "str_in sub [] = (sub = [])"
| "str_in sub (c # cs) = (starts_with (c # cs) sub \<or> str_in sub cs)"

text \<open>\<^verbatim>\<open>any(term in s for term in terms)\<close>.\<close>

definition any_in :: "string list \<Rightarrow> string \<Rightarrow> bool" where
  "any_in terms s = list_ex (\<lambda>t. str_in t s) terms"

section \<open>The drug catalog\<close>

datatype MedicationType =
    NASAL_INHALER | ORAL_INHALER | INSULIN | BIOLOGIC_INJECTABLE | NONBIOLOGIC_INJECTABLE
  | EYEDROP | TOPICAL | DIABETIC_INJECTABLE | UNKNOWN

text \<open>
  A catalog row (\<^verbatim>\<open>row.to_dict()\<close>), restricted to the columns the calculators read with
  \<^verbatim>\<open>drug_data.get\<close>.  \<^term>\<open>None\<close> is an absent column.  The CSV files are not part of the
  sources; columns holding counts and numbers of days are integers, the package volume is
  a rational, and \<^verbatim>\<open>Example_Days_Supply_Scenarios\<close> is the table after its JSON text has
  been decoded (empty when decoding fails or the cell is not a table).
\<close>

record drug_data =
  Max_Total_Sprays :: "int option"
  Package_Size_Value :: "rat option"
  Example_Days_Supply_Scenarios :: "(string \<times> int) list"
  Retail_Puffs_per_Package :: "int option"
  Discard_After_Opening_Days :: "int option"
  Total_Units_per_Package :: "int option"
  Beyond_Use_Date_Days :: "int option"
  Expiration_After_Opening_Days :: "int option"
  Package_Count :: "int option"

record db_entry =
  med_type :: MedicationType
  data :: drug_data

text \<open>
  \<^verbatim>\<open>self.drug_database\<close>: a dictionary, kept as an association list in insertion order
  because the matcher iterates over \<^verbatim>\<open>keys()\<close>.
\<close>

type_synonym drug_database = "(string \<times> db_entry) list"

section \<open>DrugMatcher\<close>

text \<open>
  \<^verbatim>\<open>SequenceMatcher(None, a, b).ratio()\<close> belongs to the Python standard library, not to
  the extractor; it is a parameter of the model.
\<close>

type_synonym similarity = "string \<Rightarrow> string \<Rightarrow> rat"

definition substring_score :: "string \<Rightarrow> string \<Rightarrow> rat" where
  "substring_score input_name_clean drug_name =
     (let score = (if str_in input_name_clean drug_name
                   then of_nat (length input_name_clean) / of_nat (length drug_name)
                   else of_nat (length drug_name) / of_nat (length input_name_clean))
      in min (95 / 100) (score + 2 / 10))"

text \<open>The body of the \<^verbatim>\<open>for drug_name in self.drug_database.keys()\<close> loop.\<close>

fun match_loop ::
  "similarity \<Rightarrow> rat \<Rightarrow> string \<Rightarrow> string list \<Rightarrow> string option \<times> rat \<Rightarrow> string option \<times> rat"
where
  "match_loop ratio threshold input_name_clean [] best = best"
| "match_loop ratio threshold input_name_clean (drug_name # rest) (best_match, best_score) =
     (if input_name_clean = drug_name then (Some drug_name, 1)
      else
        let (best_match1, best_score1) =
              (if str_in input_name_clean drug_name \<or> str_in drug_name input_name_clean
               then (let score = substring_score input_name_clean drug_name
                     in if score > best_score then (Some drug_name, score)
                        else (best_match, best_score))
               else (best_match, best_score));
            similarity = ratio input_name_clean drug_name
        in if similarity > best_score1 \<and> similarity \<ge> threshold
           then match_loop ratio threshold input_name_clean rest (Some drug_name, similarity)
           else match_loop ratio threshold input_name_clean rest (best_match1, best_score1))"

definition fuzzy_match_drug_name ::
  "similarity \<Rightarrow> drug_database \<Rightarrow> string \<Rightarrow> string option \<times> rat" where
  "fuzzy_match_drug_name ratio db input_name =
     match_loop ratio (6 / 10) (strip (lower input_name)) (map fst db) (None, 0)"

section \<open>Numbers and regular expressions\<close>

text \<open>\<^verbatim>\<open>int(x)\<close> on a float truncates towards zero.\<close>

definition py_int :: "rat \<Rightarrow> int" where
  "py_int x = (if x < 0 then \<lceil>x\<rceil> else \<lfloor>x\<rfloor>)"

definition digit_val :: "char \<Rightarrow> nat" where
  "digit_val c = (case map_of (zip ''0123456789'' [0 ..< 10]) c of None \<Rightarrow> 0 | Some n \<Rightarrow> n)"

definition nat_of_digits :: "string \<Rightarrow> nat" where
  "nat_of_digits ds = foldl (\<lambda>a c. 10 * a + digit_val c) 0 ds"

text \<open>\<^verbatim>\<open>str(n)\<close> for an integer.\<close>

fun str_of_nat :: "nat \<Rightarrow> string" where
  "str_of_nat n =
     (if n < 10 then [''0123456789'' ! n] else str_of_nat (n div 10) @ [''0123456789'' ! (n mod 10)])"

declare str_of_nat.simps [simp del]

definition str_of_int :: "int \<Rightarrow> string" where
  "str_of_int i = (if i < 0 then CHR ''-'' # str_of_nat (nat (- i)) else str_of_nat (nat i))"

text \<open>
  \<^verbatim>\<open>float(m)\<close> for a text \<^verbatim>\<open>m\<close> captured by \<^verbatim>\<open>(\d+(?:\.\d+)?)\<close>: digits, optionally
  followed by a point and more digits.
\<close>

definition float_of_decimal :: "string \<Rightarrow> rat" where
  "float_of_decimal m =
     (let ip = takeWhile is_digit m; fp = drop 1 (dropWhile is_digit m)
      in of_nat (nat_of_digits ip) + of_nat (nat_of_digits fp) / 10 ^ length fp)"

text \<open>
  The regular expressions of the source are built from literals, the classes \<^verbatim>\<open>\d\<close> and
  \<^verbatim>\<open>\s\<close> under \<^verbatim>\<open>*\<close> and \<^verbatim>\<open>+\<close>, optional groups, alternatives and \<^verbatim>\<open>\b\<close> after a
  letter.  \<^term>\<open>ends r s\<close> lists the remainders of \<^term>\<open>s\<close> after each way \<^term>\<open>r\<close> can
  match at its start, in the order Python's backtracking matcher tries them (greedy
  first, alternatives left to right).
\<close>

datatype cclass = Digit | Space

fun in_class :: "cclass \<Rightarrow> char \<Rightarrow> bool" where
  "in_class Digit c = is_digit c"
| "in_class Space c = is_space c"

definition is_word_char :: "char \<Rightarrow> bool" where
  "is_word_char c =
     (c \<in> set ''abcdefghijklmnopqrstuvwxyzABCDEFGHIJKLMNOPQRSTUVWXYZ0123456789_'')"

datatype rx = Lit string | Star cclass | Plus cclass | Opt rx | Seq rx rx | Alt rx rx | WordEnd

fun star_ends :: "cclass \<Rightarrow> string \<Rightarrow> string list" where
  "star_ends cl [] = [[]]"
| "star_ends cl (c # cs) = (if in_class cl c then star_ends cl cs @ [c # cs] else [c # cs])"

fun ends :: "rx \<Rightarrow> string \<Rightarrow> string list" where
  "ends (Lit p) s = (if starts_with s p then [drop (length p) s] else [])"
| "ends (Star cl) s = star_ends cl s"
| "ends (Plus cl) s =
     (case s of [] \<Rightarrow> [] | c # cs \<Rightarrow> if in_class cl c then star_ends cl cs else [])"
| "ends (Opt r) s = ends r s @ [s]"
| "ends (Seq a b) s = concat (map (ends b) (ends a s))"
| "ends (Alt a b) s = ends a s @ ends b s"
| "ends WordEnd s = (case s of [] \<Rightarrow> [s] | c # cs \<Rightarrow> if is_word_char c then [] else [s])"

text \<open>
  A pattern \<^verbatim>\<open>(g)r\<close> matched at the start of \<^term>\<open>s\<close>: the text of group 1 and the
  remainder after the whole match.
\<close>

definition match_here :: "rx \<Rightarrow> rx \<Rightarrow> string \<Rightarrow> (string \<times> string) option" where
  "match_here g r s =
     (case List.find (\<lambda>e. ends r e \<noteq> []) (ends g s) of
        None \<Rightarrow> None
      | Some e \<Rightarrow> (case ends r e of [] \<Rightarrow> None
                  | f # _ \<Rightarrow> Some (take (length s - length e) s, f)))"

text \<open>\<^verbatim>\<open>re.search(p, s).group(1)\<close>: the leftmost match.\<close>

fun re_search :: "rx \<Rightarrow> rx \<Rightarrow> string \<Rightarrow> string option" where
  "re_search g r [] = map_option fst (match_here g r [])"
| "re_search g r (c # cs) =
     (case match_here g r (c # cs) of Some (m, _) \<Rightarrow> Some m | None \<Rightarrow> re_search g r cs)"

text \<open>
  \<^verbatim>\<open>re.findall(p, s)\<close>: the group of every match, left to right, each search starting
  where the previous match ended.  The first argument counts the characters still covered
  by the previous match.  The patterns used here match at least one digit.
\<close>

fun re_findall :: "nat \<Rightarrow> rx \<Rightarrow> rx \<Rightarrow> string \<Rightarrow> string list" where
  "re_findall n g r [] = []"
| "re_findall (Suc n) g r (c # cs) = re_findall n g r cs"
| "re_findall 0 g r (c # cs) =
     (case match_here g r (c # cs) of
        None \<Rightarrow> re_findall 0 g r cs
      | Some (m, rest) \<Rightarrow> m # re_findall (length cs - length rest) g r cs)"

text \<open>\<^verbatim>\<open>(\d+(?:\.\d+)?)\<close>\<close>

definition NUM :: rx where
  "NUM = Seq (Plus Digit) (Opt (Seq (Lit ''.'') (Plus Digit)))"

text \<open>\<^verbatim>\<open>(?:per\s*)?(?:day|daily)\<close>\<close>

definition PER_DAY :: rx where
  "PER_DAY = Seq (Opt (Seq (Lit ''per'') (Star Space))) (Alt (Lit ''day'') (Lit ''daily''))"

text \<open>The table \<^verbatim>\<open>patterns\<close> of \<^verbatim>\<open>_extract_numbers_from_sig\<close>, each pattern after its group.\<close>

definition patterns :: "(string \<times> rx) list" where
  "patterns =
    [(''sprays'', Seq (Star Space)
        (Alt (Lit ''spray'') (Alt (Lit ''sprays'') (Alt (Lit ''puff'') (Lit ''puffs''))))),
     (''units'', Seq (Star Space)
        (Alt (Lit ''unit'') (Alt (Lit ''units'') (Seq (Lit ''u'') WordEnd)))),
     (''mg'', Seq (Star Space)
        (Alt (Lit ''mg'') (Alt (Lit ''milligram'') (Lit ''milligrams'')))),
     (''ml'', Seq (Star Space)
        (Alt (Lit ''ml'') (Alt (Lit ''milliliter'') (Alt (Lit ''milliliters'') (Lit ''cc''))))),
     (''drops'', Seq (Star Space)
        (Alt (Lit ''drop'') (Alt (Lit ''drops'') (Lit ''gtt'')))),
     (''patches'', Seq (Star Space) (Alt (Lit ''patch'') (Lit ''patches''))),
     (''tablets'', Seq (Star Space)
        (Alt (Lit ''tablet'') (Alt (Lit ''tablets'') (Alt (Lit ''tab'') (Lit ''tabs''))))),
     (''capsules'', Seq (Star Space)
        (Alt (Lit ''capsule'') (Alt (Lit ''capsules'') (Alt (Lit ''cap'') (Lit ''caps''))))),
     (''times_daily'', Seq (Star Space)
        (Alt (Seq (Lit ''time'') (Seq (Opt (Lit ''s'')) (Seq (Star Space) PER_DAY)))
             (Seq (Lit ''x'') (Seq (Star Space) PER_DAY))))]"

text \<open>
  \<^verbatim>\<open>_extract_numbers_from_sig\<close>: the dictionary as an association list; a unit is a key
  only when its pattern matched.
\<close>

definition extract_numbers_from_sig :: "string \<Rightarrow> (string \<times> rat list) list" where
  "extract_numbers_from_sig sig =
     (let sig_lower = lower sig
      in filter (\<lambda>(unit, matches). matches \<noteq> [])
           (map (\<lambda>(unit, pattern).
                   (unit, map float_of_decimal (re_findall 0 NUM pattern sig_lower)))
                patterns))"

text \<open>\<^verbatim>\<open>extracted[unit][0] if unit in extracted else default\<close>\<close>

definition first_or :: "(string \<times> rat list) list \<Rightarrow> string \<Rightarrow> rat \<Rightarrow> rat" where
  "first_or extracted unit dflt =
     (case map_of extracted unit of Some (x # _) \<Rightarrow> x | _ \<Rightarrow> dflt)"

section \<open>Quantities and standardized directions\<close>

text \<open>
  \<^verbatim>\<open>PrescriptionInput.quantity\<close> has type \<^verbatim>\<open>Union[str, int, float]\<close>.
\<close>

datatype quantity = QInt int | QFloat rat | QStr string

definition split_sign :: "string \<Rightarrow> rat \<times> string" where
  "split_sign s =
     (case s of [] \<Rightarrow> (1, s)
      | c # r \<Rightarrow> if c = CHR ''-'' then (- 1, r) else if c = CHR ''+'' then (1, r) else (1, s))"

text \<open>
  \<^verbatim>\<open>float(s)\<close> on a string: surrounding whitespace, a sign, decimal digits with at most
  one point, an exponent.  Anything else raises \<^verbatim>\<open>ValueError\<close>.  (The literals
  \<^verbatim>\<open>inf\<close> and \<^verbatim>\<open>nan\<close> and digit grouping with underscores are not modelled.)
\<close>

definition py_float :: "string \<Rightarrow> py_error + rat" where
  "py_float s =
     (let (sgn, u) = split_sign (strip s);
          ip = takeWhile is_digit u;
          r1 = dropWhile is_digit u;
          point = (r1 \<noteq> [] \<and> hd r1 = CHR ''.'');
          fp = (if point then takeWhile is_digit (tl r1) else []);
          r2 = (if point then dropWhile is_digit (tl r1) else r1);
          mant = of_nat (nat_of_digits ip) + of_nat (nat_of_digits fp) / 10 ^ length fp
      in if ip = [] \<and> fp = [] then Inl ValueError
         else case r2 of
           [] \<Rightarrow> Inr (sgn * mant)
         | e # r3 \<Rightarrow>
             (let (esgn, ed) = split_sign r3
              in if e \<in> set ''eE'' \<and> ed \<noteq> [] \<and> list_all is_digit ed
                 then Inr (if esgn < 0 then sgn * mant / 10 ^ nat_of_digits ed
                           else sgn * mant * 10 ^ nat_of_digits ed)
                 else Inl ValueError))"

text \<open>\<^verbatim>\<open>float(prescription.quantity)\<close>\<close>

fun float_of_quantity :: "quantity \<Rightarrow> py_error + rat" where
  "float_of_quantity (QInt i) = Inr (of_int i)"
| "float_of_quantity (QFloat x) = Inr x"
| "float_of_quantity (QStr s) = py_float s"

definition isdigit :: "string \<Rightarrow> bool" where
  "isdigit s = (s \<noteq> [] \<and> list_all is_digit s)"

text \<open>
  \<^verbatim>\<open>str(prescription.quantity).replace(".", "").isdigit()\<close>.  The text of a non-negative
  integer is all digits; the text of a float is digits around one point exactly when the
  float is zero or lies in \<open>[0.0001, 10\<^sup>1\<^sup>6)\<close> (outside, \<^verbatim>\<open>repr\<close> writes a sign or an
  exponent).
\<close>

fun str_is_number :: "quantity \<Rightarrow> bool" where
  "str_is_number (QInt i) = (0 \<le> i)"
| "str_is_number (QFloat x) = (x = 0 \<or> (1 / 10000 \<le> x \<and> x < 10 ^ 16))"
| "str_is_number (QStr s) = isdigit (filter (\<lambda>c. c \<noteq> CHR ''.'') s)"

text \<open>
  The standardized directions are f-strings around formatted numbers; the model keeps
  their structure instead of the formatted text.  \<^verbatim>\<open>_frequency_to_text\<close> yields one of:
\<close>

datatype freq_text =
    Once_daily | Twice_daily | Three_times_daily | Four_times_daily
  | Once_weekly | Every_other_week | Once_monthly
  | Every_n_days int    \<comment> \<open>\<^verbatim>\<open>f"every {days} days"\<close>\<close>
  | N_times_daily rat   \<comment> \<open>\<^verbatim>\<open>f"{frequency:.1f} times daily"\<close>\<close>

datatype sig_text =
    Verbatim string                \<comment> \<open>a string used as it is\<close>
  | Use_sprays rat freq_text       \<comment> \<open>\<^verbatim>\<open>f"Use {sprays_per_dose} spray(s) {...}"\<close>\<close>
  | Inhale_puffs int freq_text     \<comment> \<open>\<^verbatim>\<open>f"Inhale {int(puffs_per_dose)} puff(s) {...}"\<close>\<close>
  | Inject_units int freq_text     \<comment> \<open>\<^verbatim>\<open>f"Inject {int(units_per_dose)} units {...}"\<close>\<close>
  | Inject_as_directed freq_text   \<comment> \<open>\<^verbatim>\<open>f"Inject as directed {...}"\<close>\<close>
  | Apply_topically freq_text      \<comment> \<open>\<^verbatim>\<open>f"Apply topically {...}"\<close>\<close>

section \<open>DirectionsParser\<close>

text \<open>
  The extractor is modelled as constructed without an API key: \<^verbatim>\<open>llm_enabled\<close> is false,
  every calculator takes its rule-based branch, and the arguments that only feed the
  enrichment request are dropped.
\<close>

text \<open>\<^verbatim>\<open>\s*times?\s*(?:per\s*)?(?:day|daily)\<close>, the pattern after the number.\<close>

definition TIMES_PER_DAY :: rx where
  "TIMES_PER_DAY =
     Seq (Star Space) (Seq (Lit ''time'') (Seq (Opt (Lit ''s'')) (Seq (Star Space) PER_DAY)))"

definition calculate_frequency_per_day :: "string \<Rightarrow> rat" where
  "calculate_frequency_per_day sig =
     (let sig_lower = lower sig
      in if any_in [''weekly'', ''once a week'', ''once weekly'', ''every week''] sig_lower
           then 1 / 7
         else if any_in [''every other week'', ''biweekly'', ''every 2 weeks''] sig_lower
           then 1 / 14
         else if any_in [''monthly'', ''once a month'', ''every month''] sig_lower
           then 1 / 30
         else if str_in ''prn'' sig_lower \<or> str_in ''as needed'' sig_lower then
           (if str_in ''q4h'' sig_lower \<or> str_in ''every 4 hours'' sig_lower then 45 / 10
            else if str_in ''q6h'' sig_lower \<or> str_in ''every 6 hours'' sig_lower
                    \<or> str_in ''q6-8h'' sig_lower then 6
            else if str_in ''q8h'' sig_lower \<or> str_in ''every 8 hours'' sig_lower then 25 / 10
            else if any_in [''bid'', ''b.i.d'', ''twice''] sig_lower then 15 / 10
            else 1)
         else if any_in [''qid'', ''q.i.d'', ''four times''] sig_lower then 4
         else if any_in [''thrice'', ''tid'', ''t.i.d'', ''three times''] sig_lower then 3
         else if any_in [''twice'', ''bid'', ''b.i.d''] sig_lower then 2
         else if any_in [''once'', ''daily'', ''qd'', ''q.d'', ''sid''] sig_lower
                 \<and> \<not> str_in ''twice'' sig_lower
                 \<and> \<not> str_in ''three times'' sig_lower
                 \<and> \<not> str_in ''four times'' sig_lower then 1
         else if str_in ''q6h'' sig_lower \<or> str_in ''every 6 hours'' sig_lower then 4
         else if str_in ''q8h'' sig_lower \<or> str_in ''every 8 hours'' sig_lower then 3
         else if str_in ''q12h'' sig_lower \<or> str_in ''every 12 hours'' sig_lower then 2
         else if str_in ''q24h'' sig_lower \<or> str_in ''every 24 hours'' sig_lower then 1
         else if str_in ''q4h'' sig_lower \<or> str_in ''every 4 hours'' sig_lower then 6
         else case re_search NUM TIMES_PER_DAY sig_lower of
                Some m \<Rightarrow> float_of_decimal m
              | None \<Rightarrow> 1)"

text \<open>
  \<^verbatim>\<open>_frequency_to_text\<close>.  \<^verbatim>\<open>int(1 / frequency)\<close> raises \<^verbatim>\<open>ZeroDivisionError\<close> when
  the frequency is zero.
\<close>

definition frequency_to_text :: "rat \<Rightarrow> py_error + freq_text" where
  "frequency_to_text frequency =
     (if frequency = 1 then Inr Once_daily
      else if frequency = 2 then Inr Twice_daily
      else if frequency = 3 then Inr Three_times_daily
      else if frequency = 4 then Inr Four_times_daily
      else if frequency = 1 / 7 then Inr Once_weekly
      else if frequency = 1 / 14 then Inr Every_other_week
      else if frequency = 1 / 30 then Inr Once_monthly
      else if frequency < 1 then
        (if frequency = 0 then Inl ZeroDivisionError
         else Inr (Every_n_days (py_int (1 / frequency))))
      else Inr (N_times_daily frequency))"

section \<open>DaySupplyCalculator\<close>

text \<open>
  Each calculator returns \<^verbatim>\<open>(corrected_quantity, day_supply, standardized_sig)\<close> or
  raises.  \<^verbatim>\<open>drug_data.get(key, default)\<close>:
\<close>

definition get_or :: "'a option \<Rightarrow> 'a \<Rightarrow> 'a" where
  "get_or v dflt = (case v of None \<Rightarrow> dflt | Some x \<Rightarrow> x)"

definition name_lower :: "string option \<Rightarrow> string" where
  "name_lower matched_drug_name = lower (get_or matched_drug_name [])"

subsection \<open>Nasal sprays\<close>

text \<open>The sprays per dose of the rule-based branch (the nostril phrases double it).\<close>

definition nostril_phrases :: "string list" where
  "nostril_phrases =
     [''per nostril'', ''each nostril'', ''in each nostril'', ''both nostrils'', ''bilat nares'']"

definition nasal_sprays_per_dose :: "string \<Rightarrow> rat" where
  "nasal_sprays_per_dose sig =
     (let extracted = extract_numbers_from_sig sig;
          sprays_per_dose = first_or extracted ''sprays'' 1;
          sig_lower = lower sig
      in if any_in nostril_phrases sig_lower then sprays_per_dose * 2 else sprays_per_dose)"

text \<open>The re-derived daily usage for three and four times daily directions.\<close>

definition corrected_usage :: "string \<Rightarrow> int option" where
  "corrected_usage sig =
     (let sl = lower sig
      in if any_in [''three times daily'', ''3 times daily'', ''tid''] sl then
           (if str_in ''1 spray each nostril'' sl \<or> str_in ''one spray each nostril'' sl
              then Some 6
            else if str_in ''2 spray'' sl \<or> str_in ''two spray'' sl then Some 12
            else None)
         else if any_in [''four times daily'', ''4 times daily'', ''qid''] sl then
           (if str_in ''1 spray each nostril'' sl \<or> str_in ''one spray each nostril'' sl
              then Some 8
            else if str_in ''2 spray'' sl \<or> str_in ''two spray'' sl then Some 16
            else None)
         else None)"

text \<open>The day supply before the product-specific rules.\<close>

definition nasal_base_days :: "(string \<times> int) list \<Rightarrow> string \<Rightarrow> rat \<Rightarrow> rat \<Rightarrow> int" where
  "nasal_base_days example_scenarios sig total_sprays_available daily_spray_usage =
     (if example_scenarios \<noteq> [] \<and> daily_spray_usage > 0 then
        (case map_of example_scenarios (str_of_int (py_int daily_spray_usage)) of
           Some day_supply \<Rightarrow> day_supply
         | None \<Rightarrow>
             (case corrected_usage sig of
                Some cu \<Rightarrow>
                  (case map_of example_scenarios (str_of_int cu) of
                     Some day_supply \<Rightarrow> day_supply
                   | None \<Rightarrow> py_int (total_sprays_available / of_int cu))
              | None \<Rightarrow> py_int (total_sprays_available / daily_spray_usage)))
      else if daily_spray_usage > 0 then py_int (total_sprays_available / daily_spray_usage)
      else 30)"

text \<open>The product-specific rules and the bounds for regular nasal sprays.\<close>

definition nasal_special_days :: "string \<Rightarrow> int \<Rightarrow> int \<Rightarrow> int" where
  "nasal_special_days drug_name_lower max_sprays day_supply =
     (if str_in ''calcitonin'' drug_name_lower then max_sprays
      else if str_in ''butorphanol'' drug_name_lower then max 7 (min 14 max_sprays)
      else if str_in ''migranol'' drug_name_lower \<or> str_in ''migranal'' drug_name_lower
        then max 32 (min 64 max_sprays)
      else if str_in ''nayzilam'' drug_name_lower \<or> str_in ''neffy'' drug_name_lower
        then (if max_sprays \<le> 2 then 7 else max 7 (min 30 max_sprays))
      else if str_in ''zavzpret'' drug_name_lower then max_sprays
      else if str_in ''sprix'' drug_name_lower \<or> str_in ''trudhesa'' drug_name_lower
        then (if max_sprays \<le> 8 then max 4 (min 7 max_sprays)
              else max 7 (min 14 (max_sprays div 2)))
      else max 7 (min day_supply 365))"

definition process_nasal_inhaler ::
  "drug_data \<Rightarrow> rat \<Rightarrow> string \<Rightarrow> string option \<Rightarrow> py_error + rat \<times> rat \<times> sig_text" where
  "process_nasal_inhaler drug_data quantity sig matched_drug_name =
     (let max_sprays0 = get_or (Max_Total_Sprays drug_data) 0;
          drug_name_lower = name_lower matched_drug_name;
          frequency = calculate_frequency_per_day sig;
          sprays_per_dose = nasal_sprays_per_dose sig
      in case frequency_to_text frequency of
           Inl e \<Rightarrow> Inl e
         | Inr text \<Rightarrow>
             (let standardized_sig = Use_sprays sprays_per_dose text;
                  max_sprays = (if max_sprays0 \<le> 0 then 120 else max_sprays0);
                  package_size_ml = get_or (Package_Size_Value drug_data) 15
              in if quantity > 10 \<and> package_size_ml = 0 then Inl ZeroDivisionError
                 else
                   (let corrected_quantity =
                          (if quantity > 10 then quantity / package_size_ml else quantity);
                        total_sprays_available = corrected_quantity * of_int max_sprays;
                        daily_spray_usage = sprays_per_dose * frequency;
                        day_supply = nasal_base_days (Example_Days_Supply_Scenarios drug_data)
                                       sig total_sprays_available daily_spray_usage
                    in Inr (corrected_quantity,
                            of_int (nasal_special_days drug_name_lower max_sprays day_supply),
                            standardized_sig))))"

subsection \<open>Oral inhalers\<close>

definition is_rescue_inhaler :: "string \<Rightarrow> bool" where
  "is_rescue_inhaler drug_name_lower =
     (str_in ''albuterol'' drug_name_lower \<or> str_in ''proair'' drug_name_lower
      \<or> str_in ''ventolin'' drug_name_lower \<or> str_in ''xopenex'' drug_name_lower)"

text \<open>
  The dose and the frequency of the rule-based branch, after the adjustments for
  device families.  The table of \<^verbatim>\<open>_extract_numbers_from_sig\<close> has no key \<^verbatim>\<open>puffs\<close>; puffs
  are found under \<^verbatim>\<open>sprays\<close>.
\<close>

definition oral_dose_frequency :: "string \<Rightarrow> string \<Rightarrow> rat \<times> rat" where
  "oral_dose_frequency drug_name_lower sig =
     (let extracted = extract_numbers_from_sig sig;
          frequency = calculate_frequency_per_day sig;
          puffs_per_dose = (if map_of extracted ''puffs'' \<noteq> None then first_or extracted ''puffs'' 2
                            else first_or extracted ''sprays'' 2)
      in if str_in ''ellipta'' drug_name_lower
           then (1, if frequency > 1 then 1 else frequency)
         else if str_in ''handihaler'' drug_name_lower \<or> str_in ''twisthaler'' drug_name_lower
           then (min puffs_per_dose 2, if frequency > 2 then min frequency 2 else frequency)
         else (puffs_per_dose, frequency))"

text \<open>
  The "economic" day supply: the scenario table or package contents over daily use, then
  the rules for Ellipta devices and rescue inhalers.
\<close>

definition oral_calculated_days ::
  "(string \<times> int) list \<Rightarrow> string \<Rightarrow> int \<Rightarrow> rat \<Rightarrow> rat \<Rightarrow> rat \<Rightarrow> rat" where
  "oral_calculated_days example_scenarios drug_name_lower discard_days total_puffs
       puffs_per_dose frequency =
     (let daily_puffs = puffs_per_dose * frequency;
          calculated_days =
            (if example_scenarios \<noteq> [] \<and> daily_puffs > 0 then
               (case map_of example_scenarios (str_of_int (py_int daily_puffs)) of
                  Some d \<Rightarrow> of_int d
                | None \<Rightarrow> of_int (py_int (total_puffs / daily_puffs)))
             else if daily_puffs > 0 then of_int (py_int (total_puffs / daily_puffs))
             else 30)
      in if str_in ''ellipta'' drug_name_lower
           then min total_puffs (of_int (if discard_days > 0 then discard_days else 90))
         else if is_rescue_inhaler drug_name_lower then
           (let daily_puffs = frequency * puffs_per_dose;
                scenario_key = str_of_int (py_int daily_puffs)
            in case map_of example_scenarios scenario_key of
                 Some d \<Rightarrow> of_int d
               | None \<Rightarrow>
                   (case map_of example_scenarios ''2'' of
                      Some d \<Rightarrow> of_int d
                    | None \<Rightarrow> of_int (py_int (total_puffs / max 4 daily_puffs))))
         else calculated_days)"

definition process_oral_inhaler ::
  "drug_data \<Rightarrow> rat \<Rightarrow> string \<Rightarrow> string option \<Rightarrow> py_error + rat \<times> rat \<times> sig_text" where
  "process_oral_inhaler drug_data quantity sig matched_drug_name =
     (let puffs_per_package0 = get_or (Retail_Puffs_per_Package drug_data) 0;
          discard_days = get_or (Discard_After_Opening_Days drug_data) 0;
          drug_name_lower = name_lower matched_drug_name;
          example_scenarios = Example_Days_Supply_Scenarios drug_data;
          (puffs_per_dose, frequency) = oral_dose_frequency drug_name_lower sig
      in case frequency_to_text frequency of
           Inl e \<Rightarrow> Inl e
         | Inr text \<Rightarrow>
             (let standardized_sig = Inhale_puffs (py_int puffs_per_dose) text;
                  corrected_quantity = quantity;
                  puffs_per_package = (if puffs_per_package0 \<le> 0 then 200 else puffs_per_package0);
                  total_puffs = corrected_quantity * of_int puffs_per_package;
                  calculated_days = oral_calculated_days example_scenarios drug_name_lower
                                      discard_days total_puffs puffs_per_dose frequency;
                  day_supply = (if discard_days > 0 then min calculated_days (of_int discard_days)
                                else calculated_days)
              in Inr (corrected_quantity, max 7 (min day_supply 365), standardized_sig)))"

subsection \<open>Insulin\<close>

definition process_insulin ::
  "drug_data \<Rightarrow> rat \<Rightarrow> string \<Rightarrow> py_error + rat \<times> rat \<times> sig_text" where
  "process_insulin drug_data quantity sig =
     (let total_units0 = get_or (Total_Units_per_Package drug_data) 0;
          beyond_use_days = get_or (Beyond_Use_Date_Days drug_data) 28;
          extracted = extract_numbers_from_sig sig;
          frequency = calculate_frequency_per_day sig;
          units_per_dose = first_or extracted ''units'' 10
      in case frequency_to_text frequency of
           Inl e \<Rightarrow> Inl e
         | Inr text \<Rightarrow>
             (let standardized_sig = Inject_units (py_int units_per_dose) text;
                  corrected_quantity = quantity;
                  total_units = (if total_units0 \<le> 0 then 500 else total_units0);
                  total_available_units = corrected_quantity * of_int total_units
              in if frequency > 0 \<and> units_per_dose * frequency = 0 then Inl ZeroDivisionError
                 else
                   (let calculated_days =
                          (if frequency > 0
                           then py_int (total_available_units / (units_per_dose * frequency))
                           else 30);
                        day_supply =
                          (if calculated_days > beyond_use_days \<and> beyond_use_days > 0
                           then beyond_use_days else calculated_days)
                    in Inr (corrected_quantity, of_int (max 7 (min day_supply 365)),
                            standardized_sig))))"

subsection \<open>Diabetic injectables\<close>

definition diabetic_calculated_days ::
  "string \<Rightarrow> string \<Rightarrow> rat \<Rightarrow> rat \<Rightarrow> int \<Rightarrow> int \<Rightarrow> int" where
  "diabetic_calculated_days drug_name_lower sig_lower frequency quantity expiration_days
       package_count =
     (if any_in [''ozempic'', ''semaglutide'', ''mounjaro'', ''tirzepatide'', ''trulicity'',
                 ''dulaglutide'', ''bydureon''] drug_name_lower then
        (if expiration_days > 0 then expiration_days
         else (let calculated_days = py_int (quantity * of_int package_count * 7)
               in if calculated_days < 28 then 28 else calculated_days))
      else if any_in [''adlyxin'', ''lixisenatide'', ''victoza'', ''liraglutide'', ''byetta'',
                      ''exenatide''] drug_name_lower then
        (if expiration_days > 0 then expiration_days
         else py_int (quantity * of_int package_count * 14))
      else if any_in [''soliqua'', ''xultophy''] drug_name_lower then
        (if expiration_days > 0 then expiration_days else 28)
      else if any_in [''symlinpen'', ''pramlintide''] drug_name_lower then
        (if expiration_days > 0 then expiration_days else 30)
      else if str_in ''weekly'' sig_lower \<or> frequency \<le> 1 / 7 then
        (let calculated_days = py_int (quantity * of_int package_count * 7)
         in if expiration_days > 0 then min calculated_days expiration_days
            else calculated_days)
      else if expiration_days > 0 then expiration_days
      else if frequency > 0 then py_int (quantity * of_int package_count / frequency)
      else 30)"

definition process_diabetic_injectable ::
  "drug_data \<Rightarrow> rat \<Rightarrow> string \<Rightarrow> string option \<Rightarrow> py_error + rat \<times> rat \<times> sig_text" where
  "process_diabetic_injectable drug_data quantity sig matched_drug_name =
     (let frequency = calculate_frequency_per_day sig;
          corrected_quantity = quantity;
          expiration_days = get_or (Expiration_After_Opening_Days drug_data) 0;
          package_count = get_or (Package_Count drug_data) 1;
          drug_name_lower = name_lower matched_drug_name;
          sig_lower = lower sig;
          calculated_days = diabetic_calculated_days drug_name_lower sig_lower frequency
                              quantity expiration_days package_count;
          day_supply = max 7 (min calculated_days 365)
      in case frequency_to_text frequency of
           Inl e \<Rightarrow> Inl e
         | Inr text \<Rightarrow> Inr (corrected_quantity, of_int day_supply, Inject_as_directed text))"

subsection \<open>Biologic and non-biologic injectables\<close>

text \<open>
  \<^verbatim>\<open>_process_injectable\<close> is the only injectable formula the class defines.  Nothing
  calls it: the dispatcher calls \<^verbatim>\<open>_process_biologic_injectable\<close> and
  \<^verbatim>\<open>_process_nonbiologic_injectable\<close>, which the class does not have.
\<close>

definition injectable_calculated_days :: "rat \<Rightarrow> string \<Rightarrow> bool \<Rightarrow> int" where
  "injectable_calculated_days quantity sig is_biologic =
     (let frequency = calculate_frequency_per_day sig; sl = lower sig
      in if is_biologic then
           (if str_in ''weekly'' sl then py_int (quantity * 7)
            else if str_in ''biweekly'' sl \<or> str_in ''every 2 weeks'' sl
              then py_int (quantity * 14)
            else if str_in ''monthly'' sl then py_int (quantity * 30)
            else if frequency > 0 then py_int (quantity / frequency) else 30)
         else
           (if str_in ''monthly'' sl \<or> frequency \<le> 1 / 30 then py_int (quantity * 30)
            else if str_in ''weekly'' sl \<or> frequency \<le> 1 / 7 then py_int (quantity * 7)
            else if frequency > 0 then py_int (quantity / frequency) else 30))"

definition process_injectable ::
  "drug_data \<Rightarrow> rat \<Rightarrow> string \<Rightarrow> bool \<Rightarrow> py_error + rat \<times> rat \<times> sig_text" where
  "process_injectable drug_data quantity sig is_biologic =
     (let frequency = calculate_frequency_per_day sig;
          corrected_quantity = quantity;
          calculated_days = injectable_calculated_days quantity sig is_biologic;
          day_supply = max 7 (min calculated_days 365)
      in case frequency_to_text frequency of
           Inl e \<Rightarrow> Inl e
         | Inr text \<Rightarrow> Inr (corrected_quantity, of_int day_supply, Inject_as_directed text))"

subsection \<open>Eyedrops and topicals\<close>


record ftu_row =
  Treatment_Area :: string
  Grams_per_Day_QD :: rat
  Grams_per_Day_BID :: rat
  Grams_per_Day_TID :: rat

text \<open>\<^verbatim>\<open>_process_topical_ftu\<close>, for the float the dispatcher passes as quantity.\<close>

definition process_topical_ftu ::
  "ftu_row list \<Rightarrow> rat \<Rightarrow> string \<Rightarrow> py_error + rat \<times> rat \<times> sig_text" where
  "process_topical_ftu ftu_dosing quantity sig =
     (let frequency = calculate_frequency_per_day sig;
          sig_lower = lower sig;
          total0 = foldl (\<lambda>total row.
                      if str_in (lower (Treatment_Area row)) sig_lower then
                        (if frequency = 1 then total + Grams_per_Day_QD row
                         else if frequency = 2 then total + Grams_per_Day_BID row
                         else if frequency = 3 then total + Grams_per_Day_TID row
                         else total + Grams_per_Day_QD row * frequency)
                      else total) 0 ftu_dosing;
          total_grams_per_day = (if total0 = 0 then 2 * frequency else total0);
          quantity_grams = quantity;
          day_supply0 = (if total_grams_per_day > 0
                         then py_int (quantity_grams / total_grams_per_day) else 30);
          day_supply = max 7 (min day_supply0 365)
      in case frequency_to_text frequency of
           Inl e \<Rightarrow> Inl e
         | Inr text \<Rightarrow> Inr (quantity_grams, of_int day_supply, Apply_topically text))"

section \<open>ExtractionOrchestrator\<close>

record PrescriptionInput =
  drug_name :: string
  quantity :: quantity
  sig_directions :: string

record ExtractedData =
  original_drug_name :: string
  matched_drug_name :: "string option"
  medication_type :: MedicationType
  corrected_quantity :: rat
  calculated_day_supply :: rat
  standardized_sig :: sig_text
  confidence_score :: rat
  warnings :: "string list"
  additional_info :: drug_data

text \<open>The part of \<^verbatim>\<open>self\<close> a request reads: the catalog and the topical dosing table.\<close>

record PrescriptionDataExtractor =
  drug_database :: drug_database
  ftu_dosing :: "ftu_row list"

text \<open>The empty dictionary \<^verbatim>\<open>{}\<close> as a catalog row.\<close>

definition empty_drug_data :: drug_data where
  "empty_drug_data =
     \<lparr>Max_Total_Sprays = None, Package_Size_Value = None, Example_Days_Supply_Scenarios = [],
      Retail_Puffs_per_Package = None, Discard_After_Opening_Days = None,
      Total_Units_per_Package = None, Beyond_Use_Date_Days = None,
      Expiration_After_Opening_Days = None, Package_Count = None\<rparr>"

definition create_unsupported_medication_result :: "PrescriptionInput \<Rightarrow> ExtractedData" where
  "create_unsupported_medication_result prescription =
     \<lparr>original_drug_name = drug_name prescription,
      matched_drug_name = None,
      medication_type = UNKNOWN,
      corrected_quantity = 0,
      calculated_day_supply = 0,
      standardized_sig = Verbatim ''MEDICATION NOT IN PAAS DATABASE'',
      confidence_score = 0,
      warnings = [''Medication '' @ [CHR 0x27] @ drug_name prescription @ [CHR 0x27]
                  @ '' is not in the PAAS National database and cannot be processed''],
      additional_info = empty_drug_data\<rparr>"

text \<open>
  The body of the \<^verbatim>\<open>try\<close> block: the chain over \<^verbatim>\<open>medication_type\<close>.  Each branch
  converts the quantity with \<^verbatim>\<open>float\<close> before the call.  The two injectable branches
  name methods that do not exist, which raises \<^verbatim>\<open>AttributeError\<close> before any
  argument is evaluated; the eyedrop branch passes four arguments to a method of three
  parameters, which raises \<^verbatim>\<open>TypeError\<close> once the arguments are evaluated.
\<close>

definition dispatch ::
  "ftu_row list \<Rightarrow> MedicationType \<Rightarrow> drug_data \<Rightarrow> quantity \<Rightarrow> string \<Rightarrow> string option
     \<Rightarrow> py_error + rat \<times> rat \<times> sig_text" where
  "dispatch ftu typ drug_data qty sig matched_name =
     (case typ of
        BIOLOGIC_INJECTABLE \<Rightarrow> Inl AttributeError
      | NONBIOLOGIC_INJECTABLE \<Rightarrow> Inl AttributeError
      | _ \<Rightarrow>
        (case float_of_quantity qty of
           Inl e \<Rightarrow> Inl e
         | Inr q \<Rightarrow>
            (case typ of
               NASAL_INHALER \<Rightarrow> process_nasal_inhaler drug_data q sig matched_name
             | ORAL_INHALER \<Rightarrow> process_oral_inhaler drug_data q sig matched_name
             | INSULIN \<Rightarrow> process_insulin drug_data q sig
             | DIABETIC_INJECTABLE \<Rightarrow> process_diabetic_injectable drug_data q sig matched_name
             | EYEDROP \<Rightarrow> Inl TypeError
             | TOPICAL \<Rightarrow> process_topical_ftu ftu q sig
             | _ \<Rightarrow> Inr (q, 30, Verbatim sig))))"

text \<open>
  The \<^verbatim>\<open>except Exception\<close> handler: the quantity is parsed again when its text without
  points is all digits, and this second \<^verbatim>\<open>float\<close> is not protected.
\<close>

definition handler_quantity :: "quantity \<Rightarrow> py_error + rat" where
  "handler_quantity qty = (if str_is_number qty then float_of_quantity qty else Inr 1)"

definition extract_prescription_data ::
  "similarity \<Rightarrow> PrescriptionDataExtractor \<Rightarrow> PrescriptionInput \<Rightarrow> py_error + ExtractedData"
where
  "extract_prescription_data ratio self prescription =
     (let (matched_name, confidence) =
            fuzzy_match_drug_name ratio (drug_database self) (drug_name prescription)
      in case matched_name of
           None \<Rightarrow> Inr (create_unsupported_medication_result prescription)
         | Some name \<Rightarrow>
           if confidence < 80 / 100
           then Inr (create_unsupported_medication_result prescription)
           else
             (let entry = map_of (drug_database self) name;
                  drug_data = (case entry of None \<Rightarrow> empty_drug_data | Some e \<Rightarrow> data e);
                  typ = (case entry of None \<Rightarrow> UNKNOWN | Some e \<Rightarrow> med_type e);
                  result = (\<lambda>(corrected_qty, day_supply, std_sig).
                     \<lparr>original_drug_name = drug_name prescription,
                      matched_drug_name = matched_name,
                      medication_type = typ,
                      corrected_quantity = corrected_qty,
                      calculated_day_supply = day_supply,
                      standardized_sig = std_sig,
                      confidence_score = confidence,
                      warnings = [],
                      additional_info = drug_data\<rparr>)
              in case dispatch (ftu_dosing self) typ drug_data (quantity prescription)
                        (sig_directions prescription) matched_name of
                   Inr r \<Rightarrow> Inr (result r)
                 | Inl e \<Rightarrow>
                     (case handler_quantity (quantity prescription) of
                        Inl e' \<Rightarrow> Inl e'
                      | Inr corrected_qty \<Rightarrow>
                          Inr (result (corrected_qty, 30,
                                       Verbatim (sig_directions prescription))))))"

section \<open>The matcher as the specification words it\<close>





text \<open>A stand-in for the library's similarity ratio in concrete examples.\<close>

definition ratio_exact :: similarity where
  "ratio_exact a b = (if a = b then 1 else 0)"

section \<open>Concrete catalogs and requests\<close>

text \<open>A two-row catalog for concrete examples of matching.\<close>

definition flonase_catalog :: drug_database where
  "flonase_catalog =
     [(''fluticasone propionate'', \<lparr>med_type = NASAL_INHALER, data = empty_drug_data\<rparr>),
      (''flonase'', \<lparr>med_type = NASAL_INHALER, data = empty_drug_data\<rparr>)]"

definition flonase_extractor :: PrescriptionDataExtractor where
  "flonase_extractor = \<lparr>drug_database = flonase_catalog, ftu_dosing = []\<rparr>"

text \<open>The request of the specification's scenario for an unknown drug.\<close>

definition xyz_request :: PrescriptionInput where
  "xyz_request =
     \<lparr>drug_name = ''XYZ-Not-A-Drug'', quantity = QInt 1, sig_directions = ''take daily''\<rparr>"



text \<open>An insulin row, and the same row with no units recorded.\<close>

definition humalog_data :: drug_data where
  "humalog_data =
     empty_drug_data\<lparr>Total_Units_per_Package := Some 1000, Beyond_Use_Date_Days := Some 28\<rparr>"

definition humalog_extractor :: PrescriptionDataExtractor where
  "humalog_extractor =
     \<lparr>drug_database = [(''humalog'', \<lparr>med_type = INSULIN, data = humalog_data\<rparr>)],
      ftu_dosing = []\<rparr>"



definition humalog_request :: "quantity \<Rightarrow> PrescriptionInput" where
  "humalog_request qty =
     \<lparr>drug_name = ''Humalog'', quantity = qty, sig_directions = ''15 units tid''\<rparr>"

text \<open>A biologic injectable.\<close>

definition humira_extractor :: PrescriptionDataExtractor where
  "humira_extractor =
     \<lparr>drug_database = [(''humira'', \<lparr>med_type = BIOLOGIC_INJECTABLE, data = empty_drug_data\<rparr>)],
      ftu_dosing = []\<rparr>"

definition humira_request :: PrescriptionInput where
  "humira_request =
     \<lparr>drug_name = ''Humira'', quantity = QInt 2, sig_directions = ''inject weekly''\<rparr>"




section \<open>Auxiliary definitions for the proofs\<close>



section \<open>Properties of the matcher\<close>


















section \<open>Unmatched requests\<close>

text \<open>
  Claim C4.  For every request whose drug name finds no catalog candidate, or only a
  candidate with confidence below 0.80, the result has no matched name, confidence 0, day
  supply 0, the fixed marker \<^verbatim>\<open>MEDICATION NOT IN PAAS DATABASE\<close> as standardized
  directions and a non-empty list of warnings.  The result is a function of the drug name
  alone: no category formula runs, and the quantity is never parsed.
\<close>

theorem unmatched_request_result:
  assumes "fuzzy_match_drug_name ratio (drug_database self) (drug_name prescription) = (m, c)"
      and "m = None \<or> c < 80 / 100"
  shows "extract_prescription_data ratio self prescription
           = Inr (create_unsupported_medication_result prescription)
         \<and> matched_drug_name (create_unsupported_medication_result prescription) = None
         \<and> confidence_score (create_unsupported_medication_result prescription) = 0
         \<and> calculated_day_supply (create_unsupported_medication_result prescription) = 0
         \<and> standardized_sig (create_unsupported_medication_result prescription)
             = Verbatim ''MEDICATION NOT IN PAAS DATABASE''
         \<and> warnings (create_unsupported_medication_result prescription) \<noteq> []"
proof -
  have "extract_prescription_data ratio self prescription
           = Inr (create_unsupported_medication_result prescription)"
    using assms by (cases m) (auto simp: extract_prescription_data_def)
  then show ?thesis by (simp add: create_unsupported_medication_result_def)
qed

theorem unmatched_request_result_witness:
  "fuzzy_match_drug_name ratio_exact (drug_database flonase_extractor) (drug_name xyz_request)
     = (None, 0)
   \<and> extract_prescription_data ratio_exact flonase_extractor xyz_request
       = Inr (create_unsupported_medication_result xyz_request)
   \<and> calculated_day_supply (create_unsupported_medication_result xyz_request) = 0
   \<and> confidence_score (create_unsupported_medication_result xyz_request) = 0"
proof -
  have h: "fuzzy_match_drug_name ratio_exact (drug_database flonase_extractor)
             (drug_name xyz_request) = (None, 0)"
    by code_simp
  from h unmatched_request_result[OF h] show ?thesis by blast
qed

section \<open>Properties of the frequency rules\<close>









text \<open>
  Claim C8, as stated, fails: the weekly, monthly and as-needed rules come first, so
  directions with a specific keyword and a generic one can still resolve to the generic
  1.0.  "Three times daily as needed" contains "three times" and "daily" and resolves
  to 1.
\<close>

theorem specific_frequency_counterexample:
  "any_in [''thrice'', ''tid'', ''t.i.d'', ''three times'']
      (lower ''take three times daily as needed'')
   \<and> any_in [''daily'', ''once'', ''qd''] (lower ''take three times daily as needed'')
   \<and> calculate_frequency_per_day ''take three times daily as needed'' = 1"
  by code_simp

text \<open>
  Claim C8, amended.  For every directions string with no weekly, biweekly or monthly
  term and no PRN or as-needed term, the rule-based parser returns the frequency of the
  highest-ranking specific keyword present: 4 for QID or "four times", else 3 for TID,
  "thrice" or "three times", else 2 for BID or "twice" -- whether or not a generic daily
  keyword (daily, once, QD) is present as well, and never the generic 1.
\<close>

theorem specific_frequency_before_generic:
  assumes w: "\<not> any_in [''weekly'', ''once a week'', ''once weekly'', ''every week''] (lower sig)"
      and b: "\<not> any_in [''every other week'', ''biweekly'', ''every 2 weeks''] (lower sig)"
      and m: "\<not> any_in [''monthly'', ''once a month'', ''every month''] (lower sig)"
      and p: "\<not> (str_in ''prn'' (lower sig) \<or> str_in ''as needed'' (lower sig))"
  shows "(any_in [''qid'', ''q.i.d'', ''four times''] (lower sig)
            \<longrightarrow> calculate_frequency_per_day sig = 4)
       \<and> (\<not> any_in [''qid'', ''q.i.d'', ''four times''] (lower sig)
            \<and> any_in [''thrice'', ''tid'', ''t.i.d'', ''three times''] (lower sig)
            \<longrightarrow> calculate_frequency_per_day sig = 3)
       \<and> (\<not> any_in [''qid'', ''q.i.d'', ''four times''] (lower sig)
            \<and> \<not> any_in [''thrice'', ''tid'', ''t.i.d'', ''three times''] (lower sig)
            \<and> any_in [''twice'', ''bid'', ''b.i.d''] (lower sig)
            \<longrightarrow> calculate_frequency_per_day sig = 2)"
proof (intro conjI impI)
  assume "any_in [''qid'', ''q.i.d'', ''four times''] (lower sig)"
  with w b m p show "calculate_frequency_per_day sig = 4"
    unfolding calculate_frequency_per_day_def Let_def by (simp only: if_False if_True)
next
  assume "\<not> any_in [''qid'', ''q.i.d'', ''four times''] (lower sig)
            \<and> any_in [''thrice'', ''tid'', ''t.i.d'', ''three times''] (lower sig)"
  with w b m p show "calculate_frequency_per_day sig = 3"
    unfolding calculate_frequency_per_day_def Let_def by (simp only: if_False if_True)
next
  assume "\<not> any_in [''qid'', ''q.i.d'', ''four times''] (lower sig)
            \<and> \<not> any_in [''thrice'', ''tid'', ''t.i.d'', ''three times''] (lower sig)
            \<and> any_in [''twice'', ''bid'', ''b.i.d''] (lower sig)"
  with w b m p show "calculate_frequency_per_day sig = 2"
    unfolding calculate_frequency_per_day_def Let_def by (simp only: if_False if_True)
qed

theorem specific_frequency_before_generic_witness:
  "any_in [''twice'', ''bid'', ''b.i.d''] (lower ''Twice daily'')
   \<and> any_in [''daily'', ''once'', ''qd''] (lower ''Twice daily'')
   \<and> calculate_frequency_per_day ''Twice daily'' = 2"
proof -
  have w: "\<not> any_in [''weekly'', ''once a week'', ''once weekly'', ''every week'']
                (lower ''Twice daily'')"
    by code_simp
  have b: "\<not> any_in [''every other week'', ''biweekly'', ''every 2 weeks'']
                (lower ''Twice daily'')"
    by code_simp
  have m: "\<not> any_in [''monthly'', ''once a month'', ''every month''] (lower ''Twice daily'')"
    by code_simp
  have p: "\<not> (str_in ''prn'' (lower ''Twice daily'') \<or> str_in ''as needed'' (lower ''Twice daily''))"
    by code_simp
  have q: "\<not> any_in [''qid'', ''q.i.d'', ''four times''] (lower ''Twice daily'')"
    by code_simp
  have t: "\<not> any_in [''thrice'', ''tid'', ''t.i.d'', ''three times''] (lower ''Twice daily'')"
    by code_simp
  have k: "any_in [''twice'', ''bid'', ''b.i.d''] (lower ''Twice daily'')"
    by code_simp
  have g: "any_in [''daily'', ''once'', ''qd''] (lower ''Twice daily'')"
    by code_simp
  from specific_frequency_before_generic[OF w b m p] q t k g show ?thesis by blast
qed




section \<open>Properties of the calculators\<close>






















section \<open>Day supply bounds\<close>




section \<open>Exceptions and the degraded result\<close>

text \<open>
  Claim C2.  For numeric quantities a result is always returned (lemma
  \<open>matched_request_ok\<close>), but the handler that builds the degraded result parses the
  quantity once more, unprotected, whenever its text without points is all digits.  For
  the quantity string \<^verbatim>\<open>1.2.3\<close> the first \<^verbatim>\<open>float\<close> raises inside the \<^verbatim>\<open>try\<close> block, the
  handler finds \<^verbatim>\<open>123\<close> to be digits, and the second \<^verbatim>\<open>float\<close> raises \<^verbatim>\<open>ValueError\<close>
  out of \<^verbatim>\<open>extract_prescription_data\<close>.
\<close>

theorem handler_reraises_on_dotted_quantity:
  "str_is_number (QStr ''1.2.3'')
   \<and> float_of_quantity (QStr ''1.2.3'') = Inl ValueError
   \<and> extract_prescription_data ratio_exact humalog_extractor (humalog_request (QStr ''1.2.3''))
       = Inl ValueError"
  by code_simp

text \<open>
  Claim C3.  The formula the claim describes is \<^verbatim>\<open>_process_injectable\<close>: for two
  packages and "inject weekly" it gives 2 \<times> 7 = 14 days.  The dispatcher never
  reaches it.  It calls \<^verbatim>\<open>_process_biologic_injectable\<close> and
  \<^verbatim>\<open>_process_nonbiologic_injectable\<close>, which do not exist, so every injectable request
  ends in the exception handler with 30 days and the directions as they were given.
\<close>

theorem injectable_request_is_degraded:
  "injectable_calculated_days 2 ''inject weekly'' True = 14
   \<and> extract_prescription_data ratio_exact humira_extractor humira_request =
       Inr \<lparr>original_drug_name = ''Humira'', matched_drug_name = Some ''humira'',
            medication_type = BIOLOGIC_INJECTABLE, corrected_quantity = 2,
            calculated_day_supply = 30, standardized_sig = Verbatim ''inject weekly'',
            confidence_score = 1, warnings = [], additional_info = empty_drug_data\<rparr>"
  by code_simp

section \<open>Insulin\<close>







section \<open>Oral inhalers and the discard window\<close>







section \<open>Nasal sprays and the nostril phrases\<close>

lemma nasal_per_dose:
  "nasal_sprays_per_dose s
     = (if any_in nostril_phrases (lower s) then 2 else 1)
       * first_or (extract_numbers_from_sig s) ''sprays'' 1"
  by (simp add: nasal_sprays_per_dose_def Let_def)

lemma nasal_sig:
  "process_nasal_inhaler d q sig name = Inr (cq, ds, s)
     \<Longrightarrow> \<exists>t. s = Use_sprays (nasal_sprays_per_dose sig) t"
  by (auto simp: process_nasal_inhaler_def Let_def split: sum.splits if_splits)

text \<open>
  Claim C9.  In the nasal spray calculator, directions with a per-nostril, each-nostril
  or both-nostrils phrase give a per-dose spray count exactly double that of directions
  without such a phrase in which the same spray numbers are written; the calculator
  reports this count in its standardized directions.  "1 spray each nostril" gives 2
  where "1 spray" gives 1, and "2 puffs per nostril daily" gives 4, at frequency 1.
\<close>

theorem nostril_phrase_doubles:
  "(any_in nostril_phrases (lower s1) \<and> \<not> any_in nostril_phrases (lower s2)
      \<and> map_of (extract_numbers_from_sig s1) ''sprays''
          = map_of (extract_numbers_from_sig s2) ''sprays''
      \<longrightarrow> nasal_sprays_per_dose s1 = 2 * nasal_sprays_per_dose s2)
   \<and> (\<forall>d q name cq ds s. process_nasal_inhaler d q s1 name = Inr (cq, ds, s)
          \<longrightarrow> (\<exists>t. s = Use_sprays (nasal_sprays_per_dose s1) t))
   \<and> nasal_sprays_per_dose ''1 spray each nostril'' = 2
   \<and> nasal_sprays_per_dose ''1 spray'' = 1
   \<and> nasal_sprays_per_dose ''2 puffs per nostril daily'' = 4
   \<and> calculate_frequency_per_day ''2 puffs per nostril daily'' = 1"
proof (intro conjI impI allI)
  assume "any_in nostril_phrases (lower s1) \<and> \<not> any_in nostril_phrases (lower s2)
      \<and> map_of (extract_numbers_from_sig s1) ''sprays''
          = map_of (extract_numbers_from_sig s2) ''sprays''"
  then show "nasal_sprays_per_dose s1 = 2 * nasal_sprays_per_dose s2"
    by (simp add: nasal_per_dose first_or_def)
next
  fix d q name cq ds s
  assume "process_nasal_inhaler d q s1 name = Inr (cq, ds, s)"
  then show "\<exists>t. s = Use_sprays (nasal_sprays_per_dose s1) t" by (rule nasal_sig)
next
  show "nasal_sprays_per_dose ''1 spray each nostril'' = 2" by code_simp
  show "nasal_sprays_per_dose ''1 spray'' = 1" by code_simp
  show "nasal_sprays_per_dose ''2 puffs per nostril daily'' = 4" by code_simp
  show "calculate_frequency_per_day ''2 puffs per nostril daily'' = 1" by code_simp
qed

theorem nostril_phrase_doubles_witness:
  "any_in nostril_phrases (lower ''2 sprays in each nostril twice daily'')
   \<and> map_of (extract_numbers_from_sig ''2 sprays in each nostril twice daily'') ''sprays''
       = map_of (extract_numbers_from_sig ''2 sprays twice daily'') ''sprays''
   \<and> nasal_sprays_per_dose ''2 sprays twice daily'' = 2
   \<and> nasal_sprays_per_dose ''2 sprays in each nostril twice daily''
       = 2 * nasal_sprays_per_dose ''2 sprays twice daily''"
proof -
  have a: "any_in nostril_phrases (lower ''2 sprays in each nostril twice daily'')"
    by code_simp
  have b: "\<not> any_in nostril_phrases (lower ''2 sprays twice daily'')"
    by code_simp
  have e: "map_of (extract_numbers_from_sig ''2 sprays in each nostril twice daily'') ''sprays''
             = map_of (extract_numbers_from_sig ''2 sprays twice daily'') ''sprays''"
    by code_simp
  have v: "nasal_sprays_per_dose ''2 sprays twice daily'' = 2" by code_simp
  from nostril_phrase_doubles[of "''2 sprays in each nostril twice daily''"
         "''2 sprays twice daily''"] a b e
  have "nasal_sprays_per_dose ''2 sprays in each nostril twice daily''
          = 2 * nasal_sprays_per_dose ''2 sprays twice daily''"
    by blast
  with a e v show ?thesis by blast
qed

end
